theory Spec2Isabelle
  imports Complex_Main
begin

section \<open>JavaScript values\<close>

text \<open>
  The assertion engine is TypeScript running on a JavaScript runtime. Strings are lists of
  code units, restricted here to the units 0..255 that an Isabelle \<open>char\<close> holds. A
  \<open>number\<close> is \<open>NaN\<close> or an exact real: rounding and overflow of the IEEE doubles are
  outside the model, the rest of the arithmetic the engine does (comparison with \<open><\<close>,
  truthiness in \<open>||\<close>) is as JavaScript has it. An optional field is an \<open>option\<close>,
  \<open>None\<close> standing for \<open>undefined\<close>.
\<close>

datatype number = NaN | Num real

text \<open>Truthiness of a number: \<open>0\<close> and \<open>NaN\<close> are falsy.\<close>

fun number_truthy :: "number \<Rightarrow> bool" where
  "number_truthy NaN = False"
| "number_truthy (Num x) = (x \<noteq> 0)"

text \<open>The operator \<open><\<close> on numbers: any comparison with \<open>NaN\<close> is false.\<close>

fun number_less :: "number \<Rightarrow> number \<Rightarrow> bool" where
  "number_less (Num x) (Num y) = (x < y)"
| "number_less _ _ = False"

text \<open>\<open>n || d\<close> for an optional number \<open>n\<close>.\<close>

fun number_or :: "number option \<Rightarrow> number \<Rightarrow> number" where
  "number_or None d = d"
| "number_or (Some n) d = (if number_truthy n then n else d)"

text \<open>Truthiness of an optional string: \<open>undefined\<close> and \<open>''\<close> are falsy.\<close>

fun string_truthy :: "string option \<Rightarrow> bool" where
  "string_truthy None = False"
| "string_truthy (Some s) = (s \<noteq> [])"

text \<open>\<open>s || d\<close> for an optional string \<open>s\<close> and a string \<open>d\<close>.\<close>

fun string_or :: "string option \<Rightarrow> string \<Rightarrow> string" where
  "string_or None d = d"
| "string_or (Some s) d = (if s \<noteq> [] then s else d)"

text \<open>An optional string inside a template literal or a concatenation.\<close>

fun template_string :: "string option \<Rightarrow> string" where
  "template_string None = ''undefined''"
| "template_string (Some s) = s"

text \<open>
  A value as \<open>JSON.parse\<close> or a call of a \<open>Function\<close> object gives it. The fields of an
  object are an association list with distinct keys.
\<close>

datatype jsvalue =
    JUndefined
  | JNull
  | JBool bool
  | JNumber number
  | JString string
  | JArray "jsvalue list"
  | JObject "(string \<times> jsvalue) list"

fun truthy :: "jsvalue \<Rightarrow> bool" where
  "truthy JUndefined = False"
| "truthy JNull = False"
| "truthy (JBool b) = b"
| "truthy (JNumber n) = number_truthy n"
| "truthy (JString s) = (s \<noteq> [])"
| "truthy (JArray _) = True"
| "truthy (JObject _) = True"

text \<open>
  Reading the property \<open>k\<close> of a value that is not \<open>undefined\<close> or \<open>null\<close>, for a \<open>k\<close>
  that no prototype defines: a field of the object, and \<open>undefined\<close> otherwise.
\<close>

fun property :: "jsvalue \<Rightarrow> string \<Rightarrow> jsvalue" where
  "property (JObject fs) k = (case map_of fs k of None \<Rightarrow> JUndefined | Some v \<Rightarrow> v)"
| "property _ k = JUndefined"

text \<open>
  What a \<open>throw\<close> throws: an \<open>Error\<close> object (of \<open>Error\<close> itself or of a subclass such as
  \<open>TypeError\<close> or \<open>SyntaxError\<close>) with its message, or any other value.
\<close>

datatype js_error = Error string | Thrown jsvalue

text \<open>
  The conversion of a value to a string, as a template literal does it; \<open>None\<close> where the
  conversion throws a \<open>TypeError\<close>. An array is its elements joined by commas,
  \<open>undefined\<close> and \<open>null\<close> among them counting as empty; an object is
  \<open>[object Object]\<close>, unless a field of its own named \<open>toString\<close> hides the method it
  inherits, and then it has no string. The first argument converts the numbers.
\<close>

fun join_strings :: "string option list \<Rightarrow> string option" where
  "join_strings [] = Some []"
| "join_strings [x] = x"
| "join_strings (x # y # ys) =
     (case (x, join_strings (y # ys)) of
        (Some s, Some t) \<Rightarrow> Some (s @ '','' @ t)
      | _ \<Rightarrow> None)"

fun toString :: "(number \<Rightarrow> string) \<Rightarrow> jsvalue \<Rightarrow> string option" where
  "toString n2s JUndefined = Some ''undefined''"
| "toString n2s JNull = Some ''null''"
| "toString n2s (JBool b) = Some (if b then ''true'' else ''false'')"
| "toString n2s (JNumber n) = Some (n2s n)"
| "toString n2s (JString s) = Some s"
| "toString n2s (JArray xs) =
     join_strings
       (map (\<lambda>x. if x = JUndefined \<or> x = JNull then Some [] else toString n2s x) xs)"
| "toString n2s (JObject fs) =
     (if ''toString'' \<in> set (map fst fs) then None else Some ''[object Object]'')"

text \<open>
  The part \<open>${(err as Error).message}\<close> of the template literal in the \<open>catch\<close> block,
  for the caught \<open>err\<close>. The cast checks nothing. An
  \<open>Error\<close> gives its message. Reading a property of \<open>undefined\<close> or \<open>null\<close> throws a
  \<open>TypeError\<close>; any other value gives its property \<open>message\<close> (\<open>undefined\<close> for a
  primitive value or an array), converted to a string.
\<close>

fun caught_message :: "(number \<Rightarrow> string) \<Rightarrow> js_error \<Rightarrow> js_error + string" where
  "caught_message n2s (Error message) = Inr message"
| "caught_message n2s (Thrown JUndefined) =
     Inl (Error (''Cannot read properties of undefined (reading '' @ [CHR 0x27] @ ''message''
            @ [CHR 0x27] @ '')''))"
| "caught_message n2s (Thrown JNull) =
     Inl (Error (''Cannot read properties of null (reading '' @ [CHR 0x27] @ ''message''
            @ [CHR 0x27] @ '')''))"
| "caught_message n2s (Thrown v) =
     (case toString n2s (property v ''message'') of
        None \<Rightarrow> Inl (Error ''Cannot convert object to primitive value'')
      | Some s \<Rightarrow> Inr s)"

section \<open>The data model\<close>

record Assertion =
  type :: string
  "value" :: "string option"
  threshold :: "number option"

record TokenUsage =
  total :: int
  prompt :: int
  completion :: int

text \<open>
  The fields \<open>pass\<close> and \<open>reason\<close> are declared \<open>boolean\<close> and \<open>string\<close>; at run time
  they hold whatever a predicate returned or a judge's JSON carried, and the runner tests
  \<open>pass\<close> for truthiness only.
\<close>

record GradingResult =
  pass :: jsvalue
  reason :: jsvalue
  tokensUsed :: "TokenUsage option"

text \<open>What a provider answers: the part every answer has, then the two kinds of answer.\<close>

record Response =
  error :: "string option"
  tokenUsage :: "TokenUsage option"

record EmbeddingResult = Response +
  embedding :: "number list option"

record ProviderResponse = Response +
  "output" :: "string option"

text \<open>
  The world \<open>'w\<close> is everything outside the engine that a call may read or change
  (the network, the provider's state, what a predicate touches). A call takes the world
  and returns its answer with the new world, or throws (\<open>Inl\<close>) and leaves a world too.
  A provider handle is its \<open>callApi\<close>.
\<close>

type_synonym 'w ApiProvider = "string \<Rightarrow> 'w \<Rightarrow> (js_error + ProviderResponse) \<times> 'w"

datatype 'w provider_ref =
    ProviderId string
  | ProviderHandle "'w ApiProvider"

record 'w GradingConfig =
  provider :: "'w provider_ref option"
  rubricPrompt :: "string option"

record 'w AtomicTestCase =
  "assert" :: "Assertion list option"
  options :: "'w GradingConfig option"

text \<open>The outcome of building a \<open>Function\<close> from a body and calling it.\<close>

datatype call_result = Returned jsvalue | Threw js_error

text \<open>
  The collaborators of the engine, none of them code of the engine: the embedding provider
  of \<open>./providers/openai\<close> and \<open>cosineSimilarity\<close> of \<open>./util\<close>, which answer (the
  provider says that it failed in the \<open>error\<close> of its answer); the template renderer,
  the provider loader and the grading providers, which a test's grading configuration
  chooses and which answer or throw; the default grading prompt; and the runtime's
  \<open>JSON.parse\<close>, \<open>new Function\<close> with its call, and the conversion of a number to a
  string. \<open>renderString t c r\<close> renders the template \<open>t\<close> with \<open>content = c\<close> and
  \<open>rubric = r\<close>. \<open>JSON_parse\<close> gives \<open>Inl\<close> of the rendered \<open>SyntaxError\<close> where
  \<open>JSON.parse\<close> throws. \<open>callFunction p b x\<close> is \<open>new Function(p, b)(x)\<close>: it returns a
  value or throws, an \<open>Error\<close> or whatever else the body throws.
\<close>

record 'w env =
  callEmbeddingApi :: "string \<Rightarrow> 'w \<Rightarrow> EmbeddingResult \<times> 'w"
  cosineSimilarity :: "number list \<Rightarrow> number list \<Rightarrow> number"
  renderString :: "string \<Rightarrow> string \<Rightarrow> string \<Rightarrow> js_error + string"
  DEFAULT_GRADING_PROMPT :: string
  DefaultGradingProvider :: "'w ApiProvider"
  loadApiProvider :: "string \<Rightarrow> 'w \<Rightarrow> (js_error + 'w ApiProvider) \<times> 'w"
  JSON_parse :: "string \<Rightarrow> string + jsvalue"
  callFunction :: "string \<Rightarrow> string \<Rightarrow> string \<Rightarrow> 'w \<Rightarrow> call_result \<times> 'w"
  numberToString :: "number \<Rightarrow> string"

section \<open>Strings\<close>

definition startsWith :: "string \<Rightarrow> string \<Rightarrow> bool" where
  "startsWith s p = (take (length p) s = p)"

definition slice :: "string \<Rightarrow> nat \<Rightarrow> string" where
  "slice s n = drop n s"

text \<open>
  The white space and line terminators that \<open>trim\<close> strips, among the code units
  0..255: tab, line feed, vertical tab, form feed, carriage return, space, no-break space.
\<close>

definition isWhiteSpace :: "char \<Rightarrow> bool" where
  "isWhiteSpace c =
     (c \<in> set [CHR 0x09, CHR 0x0A, CHR 0x0B, CHR 0x0C, CHR 0x0D, CHR 0x20, CHR 0xA0])"

definition trim :: "string \<Rightarrow> string" where
  "trim s = rev (dropWhile isWhiteSpace (rev (dropWhile isWhiteSpace s)))"

text \<open>The class \<open>\d\<close> of a regular expression without the unicode flag: \<open>0\<close> to \<open>9\<close>.\<close>

definition isDigit :: "char \<Rightarrow> bool" where
  "isDigit c = ((48::nat) \<le> of_char c \<and> of_char c \<le> (57::nat))"

definition digitValue :: "char \<Rightarrow> nat" where
  "digitValue c = of_char c - 48"

fun digitsValue :: "nat \<Rightarrow> string \<Rightarrow> nat" where
  "digitsValue n [] = n"
| "digitsValue n (c # cs) = digitsValue (10 * n + digitValue c) cs"

text \<open>
  \<open>parseFloat\<close> on what the first group of \<open>SIMILAR_REGEX\<close> can hold: \<open>undefined\<close>
  (read as the string \<open>undefined\<close>, which has no number at its start), or decimal digits
  and an optional fraction. The result is the number the longest such prefix denotes, and
  \<open>NaN\<close> when the string does not start with a digit.
\<close>

fun parseFloat :: "string option \<Rightarrow> number" where
  "parseFloat None = NaN"
| "parseFloat (Some s) =
     (let ds = takeWhile isDigit s;
          r = dropWhile isDigit s;
          fs = (if startsWith r ''.'' then takeWhile isDigit (drop 1 r) else [])
      in if ds = [] then NaN
         else Num (real (digitsValue 0 (ds @ fs)) / 10 ^ length fs))"

text \<open>\<open>p\<close> removed from the start of \<open>s\<close>, when \<open>s\<close> starts with it.\<close>

definition after_prefix :: "string \<Rightarrow> string \<Rightarrow> string option" where
  "after_prefix p s = (if startsWith s p then Some (drop (length p) s) else None)"

text \<open>
  \<open>const SIMILAR_REGEX = /similar(?::|\((\d+(\.\d+)?)\):)/\<close>, matched at the start of
  \<open>s\<close>: the first group (absent in the first alternative) and the text after the match.
  The quantifiers are greedy, and no shorter choice of the digits can be followed by
  \<open>):\<close>, so the greedy choice decides.
\<close>

definition SIMILAR_REGEX_here :: "string \<Rightarrow> (string option \<times> string) option" where
  "SIMILAR_REGEX_here s =
     (case after_prefix ''similar'' s of
        None \<Rightarrow> None
      | Some t \<Rightarrow>
          if startsWith t '':'' then Some (None, drop 1 t)
          else
            (case after_prefix ''('' t of
               None \<Rightarrow> None
             | Some u \<Rightarrow>
                 (let ds = takeWhile isDigit u;
                      u1 = dropWhile isDigit u;
                      fs = (if startsWith u1 ''.'' then takeWhile isDigit (drop 1 u1) else []);
                      g = (if fs \<noteq> [] then ds @ ''.'' @ fs else ds);
                      u2 = (if fs \<noteq> [] then drop (1 + length fs) u1 else u1)
                  in if ds = [] then None
                     else
                       (case after_prefix ''):'' u2 of
                          None \<Rightarrow> None
                        | Some r \<Rightarrow> Some (Some g, r)))))"

text \<open>
  The leftmost match of \<open>SIMILAR_REGEX\<close> in \<open>s\<close>, as \<open>String.match\<close> and
  \<open>String.replace\<close> find it for a regular expression without the global flag: the text
  before the match, the first group, the text after the match.
\<close>

fun SIMILAR_REGEX_exec :: "string \<Rightarrow> (string \<times> string option \<times> string) option" where
  "SIMILAR_REGEX_exec [] = None"
| "SIMILAR_REGEX_exec (c # cs) =
     (case SIMILAR_REGEX_here (c # cs) of
        Some (g, r) \<Rightarrow> Some ([], g, r)
      | None \<Rightarrow>
          (case SIMILAR_REGEX_exec cs of
             None \<Rightarrow> None
           | Some (b, g, r) \<Rightarrow> Some (c # b, g, r)))"

text \<open>
  The prefix of \<open>s\<close> that ends with the last \<open>c\<close> of \<open>s\<close> (empty when \<open>s\<close> has no
  \<open>c\<close>): what a greedy \<open>[\s\S]*\<close> followed by \<open>c\<close> takes.
\<close>

definition upto_last :: "char \<Rightarrow> string \<Rightarrow> string" where
  "upto_last c s = rev (dropWhile (\<lambda>d. d \<noteq> c) (rev s))"

text \<open>
  \<open>const jsonPattern = /({[\s\S]*}|\[[\s\S]*])/\<close>: the leftmost match in a string, the
  first alternative tried first at each position.
\<close>

fun jsonPattern_match :: "string \<Rightarrow> string option" where
  "jsonPattern_match [] = None"
| "jsonPattern_match (c # cs) =
     (if c = CHR ''{'' \<and> CHR ''}'' \<in> set cs then Some (c # upto_last (CHR ''}'') cs)
      else if c = CHR ''['' \<and> CHR '']'' \<in> set cs then Some (c # upto_last (CHR '']'') cs)
      else jsonPattern_match cs)"

section \<open>The assertion parser\<close>

definition DEFAULT_SEMANTIC_SIMILARITY_THRESHOLD :: number where
  "DEFAULT_SEMANTIC_SIMILARITY_THRESHOLD = Num (8 / 10)"

definition assertionFromString :: "string \<Rightarrow> Assertion" where
  "assertionFromString expected =
     (case SIMILAR_REGEX_exec expected of
        Some (before, g, after) \<Rightarrow>
          (let threshold = number_or (Some (parseFloat g)) DEFAULT_SEMANTIC_SIMILARITY_THRESHOLD;
               rest = trim (before @ after)
           in \<lparr>type = ''similar'', value = Some rest, threshold = Some threshold\<rparr>)
      | None \<Rightarrow>
          if startsWith expected ''fn:'' \<or> startsWith expected ''eval:'' then
            (let sliceLength =
                   (if startsWith expected ''fn:'' then length ''fn:'' else length ''eval:'');
                 functionBody = slice expected sliceLength
             in \<lparr>type = ''javascript'', value = Some functionBody, threshold = None\<rparr>)
          else if startsWith expected ''grade:'' then
            \<lparr>type = ''llm-rubric'', value = Some (slice expected 6), threshold = None\<rparr>
          else if expected = ''is-json'' \<or> expected = ''contains-json'' then
            \<lparr>type = expected, value = None, threshold = None\<rparr>
          else \<lparr>type = ''equals'', value = Some expected, threshold = None\<rparr>)"

section \<open>Token usage\<close>

text \<open>\<open>u?.total || 0\<close> and its two siblings, for an optional usage \<open>u\<close>.\<close>

fun total_or_0 :: "TokenUsage option \<Rightarrow> int" where
  "total_or_0 None = 0"
| "total_or_0 (Some u) = total u"

fun prompt_or_0 :: "TokenUsage option \<Rightarrow> int" where
  "prompt_or_0 None = 0"
| "prompt_or_0 (Some u) = prompt u"

fun completion_or_0 :: "TokenUsage option \<Rightarrow> int" where
  "completion_or_0 None = 0"
| "completion_or_0 (Some u) = completion u"

section \<open>The similarity matcher\<close>

definition matchesSimilarity ::
  "'w env \<Rightarrow> string \<Rightarrow> string \<Rightarrow> number \<Rightarrow> 'w \<Rightarrow> GradingResult \<times> 'w" where
  "matchesSimilarity env expected out thr w =
     (case callEmbeddingApi env expected w of (expectedEmbedding, w1) \<Rightarrow>
      case callEmbeddingApi env out w1 of (outputEmbedding, w2) \<Rightarrow>
        (let used =
               \<lparr>total = total_or_0 (tokenUsage expectedEmbedding)
                          + total_or_0 (tokenUsage outputEmbedding),
                prompt = prompt_or_0 (tokenUsage expectedEmbedding)
                           + prompt_or_0 (tokenUsage outputEmbedding),
                completion = completion_or_0 (tokenUsage expectedEmbedding)
                               + completion_or_0 (tokenUsage outputEmbedding)\<rparr>
         in if string_truthy (error expectedEmbedding) \<or> string_truthy (error outputEmbedding)
            then
              (\<lparr>pass = JBool False,
                reason = JString (string_or (error expectedEmbedding)
                           (string_or (error outputEmbedding)
                              ''Unknown error fetching embeddings'')),
                tokensUsed = Some used\<rparr>, w2)
            else
              (case (embedding expectedEmbedding, embedding outputEmbedding) of
                 (Some e1, Some e2) \<Rightarrow>
                   (let similarity = cosineSimilarity env e1 e2
                    in if number_less similarity thr then
                         (\<lparr>pass = JBool False,
                           reason = JString (''Similarity '' @ numberToString env similarity
                                      @ '' is less than threshold '' @ numberToString env thr),
                           tokensUsed = Some used\<rparr>, w2)
                       else
                         (\<lparr>pass = JBool True,
                           reason = JString (''Similarity '' @ numberToString env similarity
                                      @ '' is greater than threshold '' @ numberToString env thr),
                           tokensUsed = Some used\<rparr>, w2))
               | _ \<Rightarrow>
                   (\<lparr>pass = JBool False, reason = JString ''Embedding not found'',
                     tokensUsed = Some used\<rparr>, w2))))"

section \<open>The rubric grader\<close>

text \<open>The usage of the grading call, as all three exits of the grader build it.\<close>

definition usage_of :: "TokenUsage option \<Rightarrow> TokenUsage" where
  "usage_of u = \<lparr>total = total_or_0 u, prompt = prompt_or_0 u, completion = completion_or_0 u\<rparr>"

text \<open>
  \<open>parsed.tokensUsed = u; return parsed\<close> on the parsed output of the judge. The module
  is strict code, so the assignment throws a \<open>TypeError\<close> (\<open>None\<close> here) on \<open>null\<close>
  and on a primitive value; on an object or an array it succeeds, and the value is
  returned as the \<open>GradingResult\<close> it was cast to, with the \<open>pass\<close> and \<open>reason\<close> it
  has.
\<close>

fun with_tokensUsed :: "jsvalue \<Rightarrow> TokenUsage \<Rightarrow> GradingResult option" where
  "with_tokensUsed (JObject fs) u =
     Some \<lparr>pass = property (JObject fs) ''pass'', reason = property (JObject fs) ''reason'',
           tokensUsed = Some u\<rparr>"
| "with_tokensUsed (JArray xs) u =
     Some \<lparr>pass = property (JArray xs) ''pass'', reason = property (JArray xs) ''reason'',
           tokensUsed = Some u\<rparr>"
| "with_tokensUsed _ u = None"

text \<open>
  \<open>options.provider || DefaultGradingProvider\<close>, loaded when it is a string; the loader
  may throw.
\<close>

fun resolve_provider ::
  "'w env \<Rightarrow> 'w provider_ref option \<Rightarrow> 'w \<Rightarrow> (js_error + 'w ApiProvider) \<times> 'w" where
  "resolve_provider env None w = (Inr (DefaultGradingProvider env), w)"
| "resolve_provider env (Some (ProviderHandle h)) w = (Inr h, w)"
| "resolve_provider env (Some (ProviderId name)) w =
     (if name = [] then (Inr (DefaultGradingProvider env), w) else loadApiProvider env name w)"

definition matchesLlmRubric ::
  "'w env \<Rightarrow> string \<Rightarrow> string \<Rightarrow> 'w GradingConfig option \<Rightarrow> 'w
     \<Rightarrow> (js_error + GradingResult) \<times> 'w" where
  "matchesLlmRubric env expected out opts w =
     (case opts of
        None \<Rightarrow>
          (Inl (Error (''Cannot grade output without grading config. ''
                  @ ''Specify --grader option or grading config.'')), w)
      | Some cfg \<Rightarrow>
          (case renderString env (string_or (rubricPrompt cfg) (DEFAULT_GRADING_PROMPT env))
                  out expected of
             Inl e \<Rightarrow> (Inl e, w)
           | Inr prompt_text \<Rightarrow>
               (case resolve_provider env (provider cfg) w of
                  (Inl e, w1) \<Rightarrow> (Inl e, w1)
                | (Inr callApi, w1) \<Rightarrow>
                    (case callApi prompt_text w1 of
                       (Inl e, w2) \<Rightarrow> (Inl e, w2)
                     | (Inr resp, w2) \<Rightarrow>
                         if string_truthy (error resp) \<or> \<not> string_truthy (output resp) then
                           (Inr \<lparr>pass = JBool False,
                                 reason = JString (string_or (error resp) ''No output''),
                                 tokensUsed = Some (usage_of (tokenUsage resp))\<rparr>, w2)
                         else
                           (case (case JSON_parse env (template_string (output resp)) of
                                    Inl err \<Rightarrow> None
                                  | Inr parsed \<Rightarrow>
                                      with_tokensUsed parsed (usage_of (tokenUsage resp))) of
                              Some parsed \<Rightarrow> (Inr parsed, w2)
                            | None \<Rightarrow>
                                (Inr \<lparr>pass = JBool False,
                                      reason = JString (''Output is not valid JSON: ''
                                                 @ template_string (output resp)),
                                      tokensUsed = Some (usage_of (tokenUsage resp))\<rparr>,
                                 w2))))))"

section \<open>The assertion evaluator\<close>

definition containsJSON :: "'w env \<Rightarrow> string \<Rightarrow> bool" where
  "containsJSON env str =
     (case jsonPattern_match str of
        None \<Rightarrow> False
      | Some m \<Rightarrow> (case JSON_parse env m of Inl err \<Rightarrow> False | Inr v \<Rightarrow> True))"

text \<open>
  \<open>invariant(condition, message)\<close> of \<open>tiny-invariant\<close>: it throws when the condition is
  falsy.
\<close>

definition invariant :: "bool \<Rightarrow> string \<Rightarrow> js_error option" where
  "invariant condition message =
     (if condition then None else Some (Error (''Invariant failed: '' @ message)))"

definition runAssertion ::
  "'w env \<Rightarrow> Assertion \<Rightarrow> 'w AtomicTestCase \<Rightarrow> string \<Rightarrow> 'w
     \<Rightarrow> (js_error + GradingResult) \<times> 'w" where
  "runAssertion env assertion test out w =
     (if type assertion = ''equals'' then
        (let p = (value assertion = Some out)
         in (Inr \<lparr>pass = JBool p,
                  reason = JString (if p then ''Assertion passed''
                             else ''Expected output '' @ [CHR 0x22]
                                    @ template_string (value assertion) @ [CHR 0x22]),
                  tokensUsed = None\<rparr>, w))
      else if type assertion = ''is-json'' then
        (case JSON_parse env out of
           Inr v \<Rightarrow>
             (Inr \<lparr>pass = JBool True, reason = JString ''Assertion passed'',
                   tokensUsed = None\<rparr>, w)
         | Inl err \<Rightarrow>
             (Inr \<lparr>pass = JBool False,
                   reason = JString (''Expected output to be valid JSON, but it isn'' @ [CHR 0x27]
                              @ ''t.'' @ [CHR 0x0A] @ ''Error: '' @ err),
                   tokensUsed = None\<rparr>, w))
      else if type assertion = ''contains-json'' then
        (let p = containsJSON env out
         in (Inr \<lparr>pass = JBool p,
                  reason = JString (if p then ''Assertion passed''
                             else ''Expected output to contain valid JSON''),
                  tokensUsed = None\<rparr>, w))
      else if type assertion = ''javascript'' then
        (case callFunction env ''output'' (''return '' @ template_string (value assertion))
                out w of
           (Threw err, w1) \<Rightarrow>
             (case caught_message (numberToString env) err of
                Inl e \<Rightarrow> (Inl e, w1)
              | Inr message \<Rightarrow>
                  (Inr \<lparr>pass = JBool False,
                        reason = JString (''Custom function threw error: '' @ message),
                        tokensUsed = None\<rparr>, w1))
         | (Returned p, w1) \<Rightarrow>
             (Inr \<lparr>pass = p,
                   reason = JString (if truthy p then ''Assertion passed''
                              else ''Custom function returned false''),
                   tokensUsed = None\<rparr>, w1))
      else if type assertion = ''similar'' then
        (case invariant (string_truthy (value assertion))
                ''Similarity assertion must have a string value'' of
           Some e \<Rightarrow> (Inl e, w)
         | None \<Rightarrow>
             (case matchesSimilarity env (template_string (value assertion)) out
                     (number_or (threshold assertion) (Num (75 / 100))) w of
                (r, w1) \<Rightarrow> (Inr r, w1)))
      else if type assertion = ''llm-rubric'' then
        (case invariant (string_truthy (value assertion))
                ''Similarity assertion must have a string value'' of
           Some e \<Rightarrow> (Inl e, w)
         | None \<Rightarrow>
             matchesLlmRubric env (template_string (value assertion)) out (options test) w)
      else (Inl (Error (''Unknown assertion type: '' @ type assertion)), w))"

section \<open>The assertion runner\<close>

text \<open>The three \<open>+=\<close> of the loop body, done when the result has a \<open>tokensUsed\<close>.\<close>

fun add_tokensUsed :: "TokenUsage \<Rightarrow> TokenUsage option \<Rightarrow> TokenUsage" where
  "add_tokensUsed acc None = acc"
| "add_tokensUsed acc (Some u) =
     \<lparr>total = total acc + total u, prompt = prompt acc + prompt u,
      completion = completion acc + completion u\<rparr>"

text \<open>The \<open>for\<close> loop over \<open>test.assert\<close>, with the running \<open>tokensUsed\<close>.\<close>

fun runAssertions_loop ::
  "'w env \<Rightarrow> 'w AtomicTestCase \<Rightarrow> string \<Rightarrow> Assertion list \<Rightarrow> TokenUsage \<Rightarrow> 'w
     \<Rightarrow> (js_error + GradingResult) \<times> 'w" where
  "runAssertions_loop env test out [] used w =
     (Inr \<lparr>pass = JBool True, reason = JString ''All assertions passed'',
           tokensUsed = Some used\<rparr>, w)"
| "runAssertions_loop env test out (assertion # rest) used w =
     (case runAssertion env assertion test out w of
        (Inl e, w1) \<Rightarrow> (Inl e, w1)
      | (Inr result, w1) \<Rightarrow>
          if \<not> truthy (pass result) then (Inr result, w1)
          else runAssertions_loop env test out rest
                 (add_tokensUsed used (tokensUsed result)) w1)"

definition runAssertions ::
  "'w env \<Rightarrow> 'w AtomicTestCase \<Rightarrow> string \<Rightarrow> 'w \<Rightarrow> (js_error + GradingResult) \<times> 'w" where
  "runAssertions env test out w =
     (let used = \<lparr>total = 0, prompt = 0, completion = 0\<rparr>
      in case assert test of
           None \<Rightarrow>
             (Inr \<lparr>pass = JBool True, reason = JString ''No assertions'',
                   tokensUsed = Some used\<rparr>, w)
         | Some assertions \<Rightarrow> runAssertions_loop env test out assertions used w)"

section \<open>Notions the properties are stated with\<close>

text \<open>
  The results of the assertions the runner evaluates, in order: each assertion is
  evaluated in the world its predecessor left, and the list ends with the first result
  that does not pass, or before the first assertion that raises.
\<close>

fun assertion_results ::
  "'w env \<Rightarrow> 'w AtomicTestCase \<Rightarrow> string \<Rightarrow> Assertion list \<Rightarrow> 'w \<Rightarrow> GradingResult list" where
  "assertion_results env test out [] w = []"
| "assertion_results env test out (assertion # rest) w =
     (case runAssertion env assertion test out w of
        (Inl e, w1) \<Rightarrow> []
      | (Inr result, w1) \<Rightarrow>
          if \<not> truthy (pass result) then [result]
          else result # assertion_results env test out rest w1)"

text \<open>The field-wise sum of the usages of a list of results, an absent one counting zero.\<close>

definition tokens_sum :: "GradingResult list \<Rightarrow> TokenUsage" where
  "tokens_sum rs =
     \<lparr>total = sum_list (map (\<lambda>r. total_or_0 (tokensUsed r)) rs),
      prompt = sum_list (map (\<lambda>r. prompt_or_0 (tokensUsed r)) rs),
      completion = sum_list (map (\<lambda>r. completion_or_0 (tokensUsed r)) rs)\<rparr>"




section \<open>Example environments\<close>

text \<open>
  The world of the examples is the log of the calls made to the collaborators. The
  embedding provider fails on the texts \<open>down\<close> and \<open>gone\<close>, each with a message of its
  own, and otherwise answers with a vector and a usage of two tokens; every two vectors
  have similarity \<open>0.9\<close>; the default judge answers with a passing verdict as JSON,
  and a judge loaded by name reports an error. The renderer throws on the template
  \<open>{% if %}\<close>, the loader on the name \<open>nonesuch\<close>, and the predicate
  \<open>(() => { throw null })()\<close> throws \<open>null\<close>.
\<close>

definition quoted :: "string \<Rightarrow> string" where
  "quoted s = [CHR 0x22] @ s @ [CHR 0x22]"

definition good_verdict :: string where
  "good_verdict =
     ''{'' @ quoted ''pass'' @ '':true,'' @ quoted ''reason'' @ '':'' @ quoted ''concise'' @ ''}''"

definition example_env :: "string list env" where
  "example_env =
     \<lparr>callEmbeddingApi = (\<lambda>text w.
        (if text = ''down''
         then \<lparr>error = Some ''rate limited'',
               tokenUsage = Some \<lparr>total = 1, prompt = 1, completion = 0\<rparr>,
               embedding = None\<rparr>
         else if text = ''gone''
         then \<lparr>error = Some ''model not found'', tokenUsage = None, embedding = None\<rparr>
         else \<lparr>error = None,
               tokenUsage = Some \<lparr>total = 2, prompt = 2, completion = 0\<rparr>,
               embedding = Some [Num 1, Num 0]\<rparr>,
         w @ [''embed '' @ text])),
      cosineSimilarity = (\<lambda>a b. Num (9 / 10)),
      renderString = (\<lambda>template content rubric.
        if template = ''{% if %}'' then Inl (Error ''Template render error'')
        else Inr (template @ rubric @ '' / '' @ content)),
      DEFAULT_GRADING_PROMPT = ''Grade by the rubric: '',
      DefaultGradingProvider = (\<lambda>prompt w.
        (Inr \<lparr>error = None,
              tokenUsage = Some \<lparr>total = 7, prompt = 5, completion = 2\<rparr>,
              output = Some good_verdict\<rparr>, w @ [''grade '' @ prompt])),
      loadApiProvider = (\<lambda>name w.
        (if name = ''nonesuch'' then Inl (Error ''Unknown provider'')
         else Inr (\<lambda>prompt w'. (Inr \<lparr>error = Some ''model overloaded'', tokenUsage = None,
                                      output = None\<rparr>, w' @ [''ask '' @ name])),
         w @ [''load '' @ name])),
      JSON_parse = (\<lambda>s.
        if s = good_verdict
        then Inr (JObject [(''pass'', JBool True), (''reason'', JString ''concise'')])
        else Inl ''SyntaxError: Unexpected token''),
      callFunction = (\<lambda>param body arg w.
        (if body = ''return output.length > 0'' then Returned (JBool (arg \<noteq> []))
         else if body = ''return (() => { throw null })()'' then Threw (Thrown JNull)
         else Threw (Error ''Unexpected identifier''),
         w @ [''call '' @ body])),
      numberToString = (\<lambda>n.
        case n of
          NaN \<Rightarrow> ''NaN''
        | Num x \<Rightarrow> if x = 9 / 10 then ''0.9'' else if x = 3 / 4 then ''0.75'' else ''1'')\<rparr>"

text \<open>A judge whose verdict passes and gives an empty reason.\<close>

definition terse_verdict :: string where
  "terse_verdict =
     ''{'' @ quoted ''pass'' @ '':true,'' @ quoted ''reason'' @ '':'' @ quoted [] @ ''}''"

definition terse_env :: "string list env" where
  "terse_env =
     example_env
       \<lparr>DefaultGradingProvider := (\<lambda>prompt w.
          (Inr \<lparr>error = None,
                tokenUsage = Some \<lparr>total = 7, prompt = 5, completion = 2\<rparr>,
                output = Some terse_verdict\<rparr>, w @ [''grade '' @ prompt])),
        JSON_parse := (\<lambda>s.
          if s = terse_verdict
          then Inr (JObject [(''pass'', JBool True), (''reason'', JString [])])
          else Inl ''SyntaxError: Unexpected token'')\<rparr>"

text \<open>
  A test of three assertions: one that passes after two embedding calls, one that
  fails, and one of a kind the evaluator does not know.
\<close>

definition example_test :: "string list AtomicTestCase" where
  "example_test =
     \<lparr>assert = Some
        [\<lparr>type = ''similar'', value = Some ''hello'', threshold = None\<rparr>,
         \<lparr>type = ''equals'', value = Some ''bye'', threshold = None\<rparr>,
         \<lparr>type = ''regex'', value = Some ''b.e'', threshold = None\<rparr>],
      options = None\<rparr>"

text \<open>Two assertions that both call the embedding provider; the second meets its failure.\<close>

definition usage_test :: "string list AtomicTestCase" where
  "usage_test =
     \<lparr>assert = Some
        [\<lparr>type = ''similar'', value = Some ''hello'', threshold = None\<rparr>,
         \<lparr>type = ''similar'', value = Some ''down'', threshold = None\<rparr>],
      options = None\<rparr>"

text \<open>Three assertions that pass: by similarity, by a predicate and by the judge.\<close>

definition passing_test :: "string list AtomicTestCase" where
  "passing_test =
     \<lparr>assert = Some
        [\<lparr>type = ''similar'', value = Some ''hello'', threshold = None\<rparr>,
         \<lparr>type = ''javascript'', value = Some ''output.length > 0'', threshold = None\<rparr>,
         \<lparr>type = ''llm-rubric'', value = Some ''be concise'', threshold = None\<rparr>],
      options = Some \<lparr>provider = None, rubricPrompt = None\<rparr>\<rparr>"

text \<open>A test whose list of assertions is empty, and one that has no list.\<close>

definition empty_test :: "string list AtomicTestCase" where
  "empty_test = \<lparr>assert = Some [], options = None\<rparr>"

definition bare_test :: "string list AtomicTestCase" where
  "bare_test = \<lparr>assert = None, options = None\<rparr>"





section \<open>Evaluating the examples\<close>

lemmas example_defs =
  example_env_def example_test_def runAssertions_def runAssertion_def matchesSimilarity_def
  invariant_def good_verdict_def quoted_def

lemmas rubric_defs = matchesLlmRubric_def usage_of_def terse_verdict_def terse_env_def

lemmas parser_defs =
  assertionFromString_def SIMILAR_REGEX_here_def after_prefix_def startsWith_def slice_def
  isDigit_def digitValue_def trim_def isWhiteSpace_def DEFAULT_SEMANTIC_SIMILARITY_THRESHOLD_def

section \<open>The runner stops at the first assertion that does not pass\<close>






section \<open>Token usage of the runner\<close>

lemma tokens_sum_Cons:
  "tokens_sum (r # rs) =
     \<lparr>total = total_or_0 (tokensUsed r) + total (tokens_sum rs),
      prompt = prompt_or_0 (tokensUsed r) + prompt (tokens_sum rs),
      completion = completion_or_0 (tokensUsed r) + completion (tokens_sum rs)\<rparr>"
  by (simp add: tokens_sum_def)

lemma add_tokensUsed_fields:
  "add_tokensUsed used t =
     \<lparr>total = total used + total_or_0 t, prompt = prompt used + prompt_or_0 t,
      completion = completion used + completion_or_0 t\<rparr>"
  by (cases t) simp_all

lemma runAssertions_loop_tokensUsed:
  "runAssertions_loop env test out as used w = (Inr r, w') \<Longrightarrow>
   (if truthy (pass r)
    then length (assertion_results env test out as w) = length as \<and>
         tokensUsed r =
           Some \<lparr>total = total used + total (tokens_sum (assertion_results env test out as w)),
                 prompt = prompt used + prompt (tokens_sum (assertion_results env test out as w)),
                 completion = completion used
                   + completion (tokens_sum (assertion_results env test out as w))\<rparr>
    else assertion_results env test out as w \<noteq> [] \<and>
         r = last (assertion_results env test out as w))"
proof (induction as arbitrary: used w)
  case Nil
  then show ?case by (auto simp: tokens_sum_def)
next
  case (Cons a as)
  obtain x w1 where step: "runAssertion env a test out w = (x, w1)"
    by (cases "runAssertion env a test out w")
  show ?case
  proof (cases x)
    case (Inl e)
    with step Cons.prems show ?thesis by simp
  next
    case (Inr result)
    show ?thesis
    proof (cases "truthy (pass result)")
      case False
      with step Inr Cons.prems show ?thesis by auto
    next
      case True
      with step Inr Cons.prems have
        "runAssertions_loop env test out as (add_tokensUsed used (tokensUsed result)) w1
           = (Inr r, w')"
        by simp
      from Cons.IH [OF this] step Inr True show ?thesis
        by (simp add: tokens_sum_Cons add_tokensUsed_fields split: if_splits)
    qed
  qed
qed

text \<open>
  C2, as amended. When every assertion passes, all of them were evaluated and the
  \<open>tokensUsed\<close> of the result is the field-wise sum of their usages, an absent usage
  counting zero. When an assertion does not pass, the result is the last result
  evaluated, as it is: its \<open>tokensUsed\<close> is that assertion's own (absent if it reported
  none), and the usage of the assertions that passed before it is not part of it.
\<close>

theorem runAssertions_tokensUsed:
  assumes "assert test = Some as"
    and "runAssertions env test out w = (Inr r, w')"
  shows "if truthy (pass r)
         then length (assertion_results env test out as w) = length as \<and>
              tokensUsed r = Some (tokens_sum (assertion_results env test out as w))
         else assertion_results env test out as w \<noteq> [] \<and>
              r = last (assertion_results env test out as w)"
proof -
  have "runAssertions_loop env test out as \<lparr>total = 0, prompt = 0, completion = 0\<rparr> w
          = (Inr r, w')"
    using assms by (simp add: runAssertions_def)
  from runAssertions_loop_tokensUsed [OF this] show ?thesis
    by (simp split: if_splits)
qed

theorem runAssertions_tokensUsed_witness:
  "length (assertion_results example_env passing_test ''hi''
      [\<lparr>type = ''similar'', value = Some ''hello'', threshold = None\<rparr>,
       \<lparr>type = ''javascript'', value = Some ''output.length > 0'', threshold = None\<rparr>,
       \<lparr>type = ''llm-rubric'', value = Some ''be concise'', threshold = None\<rparr>] []) = 3
   \<and> tokens_sum (assertion_results example_env passing_test ''hi''
      [\<lparr>type = ''similar'', value = Some ''hello'', threshold = None\<rparr>,
       \<lparr>type = ''javascript'', value = Some ''output.length > 0'', threshold = None\<rparr>,
       \<lparr>type = ''llm-rubric'', value = Some ''be concise'', threshold = None\<rparr>] [])
     = \<lparr>total = 11, prompt = 9, completion = 2\<rparr>"
proof -
  let ?r = "\<lparr>pass = JBool True, reason = JString ''All assertions passed'',
             tokensUsed = Some \<lparr>total = 11, prompt = 9, completion = 2\<rparr>\<rparr>"
  have 1: "assert passing_test = Some
     [\<lparr>type = ''similar'', value = Some ''hello'', threshold = None\<rparr>,
      \<lparr>type = ''javascript'', value = Some ''output.length > 0'', threshold = None\<rparr>,
      \<lparr>type = ''llm-rubric'', value = Some ''be concise'', threshold = None\<rparr>]"
    by (simp add: passing_test_def)
  have 2: "runAssertions example_env passing_test ''hi'' [] =
     (Inr ?r,
      [''embed hello'', ''embed hi'', ''call return output.length > 0'',
       ''grade Grade by the rubric: be concise / hi''])"
    by (simp add: example_defs rubric_defs passing_test_def)
  show ?thesis
    using runAssertions_tokensUsed [OF 1 2] by simp
qed

theorem runAssertions_tokensUsed_counterexample:
  "runAssertions example_env usage_test ''hi'' []
     = (Inr \<lparr>pass = JBool False, reason = JString ''rate limited'',
             tokensUsed = Some \<lparr>total = 3, prompt = 3, completion = 0\<rparr>\<rparr>,
        [''embed hello'', ''embed hi'', ''embed down'', ''embed hi''])
   \<and> tokens_sum (assertion_results example_env usage_test ''hi''
        [\<lparr>type = ''similar'', value = Some ''hello'', threshold = None\<rparr>,
         \<lparr>type = ''similar'', value = Some ''down'', threshold = None\<rparr>] [])
     = \<lparr>total = 7, prompt = 7, completion = 0\<rparr>
   \<and> Some \<lparr>total = 3, prompt = 3, completion = 0\<rparr>
     \<noteq> Some (tokens_sum (assertion_results example_env usage_test ''hi''
        [\<lparr>type = ''similar'', value = Some ''hello'', threshold = None\<rparr>,
         \<lparr>type = ''similar'', value = Some ''down'', threshold = None\<rparr>] []))"
  by (simp add: example_defs usage_test_def tokens_sum_def)

section \<open>A test without assertions\<close>

text \<open>
  C3, as amended. A test that has no list of assertions passes with the reason
  \<open>No assertions\<close> and a usage of zero; a test whose list is empty passes with a usage of
  zero too, and its reason is \<open>All assertions passed\<close>. Neither raises, and neither
  touches the world.
\<close>

theorem runAssertions_no_assertions:
  "(assert test = None \<longrightarrow>
      runAssertions env test out w
        = (Inr \<lparr>pass = JBool True, reason = JString ''No assertions'',
                tokensUsed = Some \<lparr>total = 0, prompt = 0, completion = 0\<rparr>\<rparr>, w))
   \<and> (assert test = Some [] \<longrightarrow>
      runAssertions env test out w
        = (Inr \<lparr>pass = JBool True, reason = JString ''All assertions passed'',
                tokensUsed = Some \<lparr>total = 0, prompt = 0, completion = 0\<rparr>\<rparr>, w))"
  by (simp add: runAssertions_def)

theorem runAssertions_no_assertions_witness:
  "runAssertions example_env bare_test ''hi'' []
     = (Inr \<lparr>pass = JBool True, reason = JString ''No assertions'',
             tokensUsed = Some \<lparr>total = 0, prompt = 0, completion = 0\<rparr>\<rparr>, [])
   \<and> runAssertions terse_env empty_test ''hi'' []
     = (Inr \<lparr>pass = JBool True, reason = JString ''All assertions passed'',
             tokensUsed = Some \<lparr>total = 0, prompt = 0, completion = 0\<rparr>\<rparr>, [])"
proof -
  have 1: "assert bare_test = None" by (simp add: bare_test_def)
  have 2: "assert empty_test = Some []" by (simp add: empty_test_def)
  show ?thesis
    using runAssertions_no_assertions [of bare_test example_env "''hi''" "[]"]
      runAssertions_no_assertions [of empty_test terse_env "''hi''" "[]"] 1 2
    by blast
qed

theorem runAssertions_empty_list_counterexample:
  "runAssertions example_env empty_test ''hi'' []
     = (Inr \<lparr>pass = JBool True, reason = JString ''All assertions passed'',
             tokensUsed = Some \<lparr>total = 0, prompt = 0, completion = 0\<rparr>\<rparr>, [])
   \<and> JString ''All assertions passed'' \<noteq> JString ''No assertions''"
  by (simp add: runAssertions_def empty_test_def)

section \<open>Usage, errors and threshold of the similarity matcher\<close>

text \<open>
  C6. Whatever the two embedding calls answer, the result carries the field-wise sum of
  their usages, an absent usage counting zero. When the answer for the expected text
  carries an error message (a string that is not empty, which is what the source's
  \<open>||\<close> takes for an error), the result fails with that message as its reason; when it
  carries none and the answer for the output does, the result fails with that one.
\<close>

theorem matchesSimilarity_usage_and_errors:
  assumes "callEmbeddingApi env expected w = (e, w1)"
    and "callEmbeddingApi env out w1 = (oe, w2)"
  shows "tokensUsed (fst (matchesSimilarity env expected out thr w))
           = Some \<lparr>total = total_or_0 (tokenUsage e) + total_or_0 (tokenUsage oe),
                   prompt = prompt_or_0 (tokenUsage e) + prompt_or_0 (tokenUsage oe),
                   completion = completion_or_0 (tokenUsage e) + completion_or_0 (tokenUsage oe)\<rparr>
         \<and> (\<forall>msg. error e = Some msg \<and> msg \<noteq> [] \<longrightarrow>
               pass (fst (matchesSimilarity env expected out thr w)) = JBool False \<and>
               reason (fst (matchesSimilarity env expected out thr w)) = JString msg)
         \<and> (\<forall>msg. \<not> string_truthy (error e) \<and> error oe = Some msg \<and> msg \<noteq> [] \<longrightarrow>
               pass (fst (matchesSimilarity env expected out thr w)) = JBool False \<and>
               reason (fst (matchesSimilarity env expected out thr w)) = JString msg)"
  using assms
  by (cases "error e")
     (auto simp: matchesSimilarity_def Let_def split: option.splits)

theorem matchesSimilarity_usage_and_errors_witness:
  "tokensUsed (fst (matchesSimilarity example_env ''down'' ''gone'' (Num (3 / 4)) []))
     = Some \<lparr>total = 1, prompt = 1, completion = 0\<rparr>
   \<and> pass (fst (matchesSimilarity example_env ''down'' ''gone'' (Num (3 / 4)) [])) = JBool False
   \<and> reason (fst (matchesSimilarity example_env ''down'' ''gone'' (Num (3 / 4)) []))
     = JString ''rate limited''
   \<and> tokensUsed (fst (matchesSimilarity example_env ''hello'' ''gone'' (Num (3 / 4)) []))
     = Some \<lparr>total = 2, prompt = 2, completion = 0\<rparr>
   \<and> reason (fst (matchesSimilarity example_env ''hello'' ''gone'' (Num (3 / 4)) []))
     = JString ''model not found''"
proof -
  let ?down = "\<lparr>error = Some ''rate limited'',
      tokenUsage = Some \<lparr>total = 1, prompt = 1, completion = 0\<rparr>, embedding = None\<rparr>"
  let ?gone = "\<lparr>error = Some ''model not found'', tokenUsage = None, embedding = None\<rparr>"
  let ?hello = "\<lparr>error = None,
      tokenUsage = Some \<lparr>total = 2, prompt = 2, completion = 0\<rparr>,
      embedding = Some [Num 1, Num 0]\<rparr>"
  have 1: "callEmbeddingApi example_env ''down'' [] = (?down, [''embed down''])"
    by (simp add: example_env_def)
  have 2: "callEmbeddingApi example_env ''gone'' [''embed down'']
             = (?gone, [''embed down'', ''embed gone''])"
    by (simp add: example_env_def)
  have 3: "callEmbeddingApi example_env ''hello'' [] = (?hello, [''embed hello''])"
    by (simp add: example_env_def)
  have 4: "callEmbeddingApi example_env ''gone'' [''embed hello'']
             = (?gone, [''embed hello'', ''embed gone''])"
    by (simp add: example_env_def)
  show ?thesis
    using matchesSimilarity_usage_and_errors [OF 1 2, of "Num (3 / 4)"]
      matchesSimilarity_usage_and_errors [OF 3 4, of "Num (3 / 4)"]
    by simp
qed

lemma number_less_irrefl: "\<not> number_less n n"
  by (cases n) simp_all

text \<open>
  C7. When neither answer carries an error and both carry an embedding, the result
  passes exactly when the similarity is not less than the threshold, so it passes when
  the two are equal; in both outcomes the reason names the similarity and the threshold.
  A \<open>similar\<close> assertion with a value and no threshold is evaluated by the matcher with
  the threshold \<open>0.75\<close>.
\<close>

theorem matchesSimilarity_threshold:
  "(callEmbeddingApi env expected w = (e, w1) \<and> callEmbeddingApi env out w1 = (oe, w2) \<and>
    \<not> string_truthy (error e) \<and> \<not> string_truthy (error oe) \<and>
    embedding e = Some v1 \<and> embedding oe = Some v2 \<longrightarrow>
      pass (fst (matchesSimilarity env expected out thr w))
        = JBool (\<not> number_less (cosineSimilarity env v1 v2) thr) \<and>
      reason (fst (matchesSimilarity env expected out thr w))
        = JString (''Similarity '' @ numberToString env (cosineSimilarity env v1 v2)
            @ (if number_less (cosineSimilarity env v1 v2) thr
               then '' is less than threshold '' else '' is greater than threshold '')
            @ numberToString env thr) \<and>
      (cosineSimilarity env v1 v2 = thr \<longrightarrow>
         pass (fst (matchesSimilarity env expected out thr w)) = JBool True))
   \<and> (type a = ''similar'' \<and> value a = Some v \<and> v \<noteq> [] \<and> threshold a = None \<longrightarrow>
        runAssertion env a test out w
          = apfst Inr (matchesSimilarity env v out (Num (75 / 100)) w))"
  by (auto simp: matchesSimilarity_def runAssertion_def invariant_def Let_def number_less_irrefl
      split: prod.splits)

theorem matchesSimilarity_threshold_witness:
  "pass (fst (matchesSimilarity example_env ''hello'' ''hi'' (Num (9 / 10)) [])) = JBool True
   \<and> reason (fst (matchesSimilarity example_env ''hello'' ''hi'' (Num (9 / 10)) []))
     = JString ''Similarity 0.9 is greater than threshold 0.9''
   \<and> runAssertion example_env
        \<lparr>type = ''similar'', value = Some ''hello'', threshold = None\<rparr> example_test ''hi'' []
     = apfst Inr (matchesSimilarity example_env ''hello'' ''hi'' (Num (75 / 100)) [])"
proof -
  let ?hello = "\<lparr>error = None,
      tokenUsage = Some \<lparr>total = 2, prompt = 2, completion = 0\<rparr>,
      embedding = Some [Num 1, Num 0]\<rparr>"
  have 1: "callEmbeddingApi example_env ''hello'' [] = (?hello, [''embed hello''])"
    by (simp add: example_env_def)
  have 2: "callEmbeddingApi example_env ''hi'' [''embed hello'']
             = (?hello, [''embed hello'', ''embed hi''])"
    by (simp add: example_env_def)
  have 3: "cosineSimilarity example_env [Num 1, Num 0] [Num 1, Num 0] = Num (9 / 10)"
    by (simp add: example_env_def)
  have 4: "numberToString example_env (Num (9 / 10)) = ''0.9''"
    by (simp add: example_env_def)
  show ?thesis
    using matchesSimilarity_threshold [of example_env "''hello''" "[]" ?hello "[''embed hello'']"
        "''hi''" ?hello "[''embed hello'', ''embed hi'']" "[Num 1, Num 0]" "[Num 1, Num 0]"
        "Num (9 / 10)" "\<lparr>type = ''similar'', value = Some ''hello'', threshold = None\<rparr>"
        "''hello''" example_test]
      1 2 3 4
    by simp
qed

section \<open>A threshold of zero\<close>

lemma SIMILAR_REGEX_exec_zero:
  "SIMILAR_REGEX_exec (''similar(0):'' @ rest) = Some ([], Some ''0'', rest)"
  by (simp add: SIMILAR_REGEX_here_def after_prefix_def startsWith_def isDigit_def)

lemma SIMILAR_REGEX_exec_colon:
  "SIMILAR_REGEX_exec (''similar:'' @ rest) = Some ([], None, rest)"
  by (simp add: SIMILAR_REGEX_here_def after_prefix_def startsWith_def)

text \<open>
  C10. A threshold of zero cannot be told from an absent one. The evaluator treats a
  \<open>similar\<close> assertion whose threshold is \<open>0\<close> as it treats the same assertion without a
  threshold, and when the assertion has a value the matcher runs with the threshold
  \<open>0.75\<close>. The parser gives every string that starts with \<open>similar(0):\<close> the threshold
  \<open>0.8\<close>, and the very assertion it gives the string with \<open>similar:\<close> in its place.
\<close>

theorem zero_threshold_is_absent:
  "(type a = ''similar'' \<and> threshold a = Some (Num 0) \<longrightarrow>
      runAssertion env a test out w = runAssertion env (a\<lparr>threshold := None\<rparr>) test out w \<and>
      (\<forall>v. value a = Some v \<and> v \<noteq> [] \<longrightarrow>
         runAssertion env a test out w
           = apfst Inr (matchesSimilarity env v out (Num (75 / 100)) w)))
   \<and> threshold (assertionFromString (''similar(0):'' @ rest)) = Some (Num (8 / 10))
   \<and> assertionFromString (''similar(0):'' @ rest) = assertionFromString (''similar:'' @ rest)"
proof -
  have "threshold (assertionFromString (''similar(0):'' @ rest)) = Some (Num (8 / 10))"
    unfolding assertionFromString_def SIMILAR_REGEX_exec_zero
    by (simp add: DEFAULT_SEMANTIC_SIMILARITY_THRESHOLD_def isDigit_def digitValue_def
        startsWith_def)
  moreover have
    "assertionFromString (''similar(0):'' @ rest) = assertionFromString (''similar:'' @ rest)"
    unfolding assertionFromString_def SIMILAR_REGEX_exec_zero SIMILAR_REGEX_exec_colon
    by (simp add: DEFAULT_SEMANTIC_SIMILARITY_THRESHOLD_def isDigit_def digitValue_def
        startsWith_def)
  moreover have "type a = ''similar'' \<and> threshold a = Some (Num 0) \<longrightarrow>
      runAssertion env a test out w = runAssertion env (a\<lparr>threshold := None\<rparr>) test out w \<and>
      (\<forall>v. value a = Some v \<and> v \<noteq> [] \<longrightarrow>
         runAssertion env a test out w
           = apfst Inr (matchesSimilarity env v out (Num (75 / 100)) w))"
    by (auto simp: runAssertion_def invariant_def split: prod.splits)
  ultimately show ?thesis by blast
qed

theorem zero_threshold_is_absent_witness:
  "runAssertion example_env
     \<lparr>type = ''similar'', value = Some ''hello'', threshold = Some (Num 0)\<rparr> example_test ''hi'' []
     = apfst Inr (matchesSimilarity example_env ''hello'' ''hi'' (Num (75 / 100)) [])
   \<and> threshold (assertionFromString (''similar(0):'' @ '' hello'')) = Some (Num (8 / 10))"
proof -
  let ?a = "\<lparr>type = ''similar'', value = Some ''hello'', threshold = Some (Num 0)\<rparr>"
  have 1: "type ?a = ''similar'' \<and> threshold ?a = Some (Num 0)" by simp
  have 2: "value ?a = Some ''hello'' \<and> ''hello'' \<noteq> []" by simp
  show ?thesis
    using zero_threshold_is_absent [of ?a example_env example_test "''hi''" "[]" "'' hello''"] 1 2
    by blast
qed

section \<open>The kinds of assertion\<close>


section \<open>Predicates in JavaScript\<close>



lemma runAssertion_javascript_threw_nullish:
  "type a = ''javascript'' \<Longrightarrow>
   callFunction env ''output'' (''return '' @ template_string (value a)) out w
     = (Threw (Thrown v), w1) \<Longrightarrow>
   v = JNull \<or> v = JUndefined \<Longrightarrow>
   isl (fst (runAssertion env a test out w)) \<and> snd (runAssertion env a test out w) = w1"
  by (auto simp: runAssertion_def)

text \<open>
  C8. A \<open>javascript\<close> assertion builds the function \<open>output \<mapsto> return value\<close> and
  calls it on the output; what the call returns is the \<open>pass\<close> of the result, and an
  \<open>Error\<close> it throws becomes a failing result with the error's message (the first two
  lemmas above). But not every error thrown during the evaluation is converted: the predicate
  \<open>(() => { throw null })()\<close> throws \<open>null\<close>, the \<open>catch\<close> block then reads
  \<open>err.message\<close>, that read throws a \<open>TypeError\<close>, and the evaluator raises it where
  it should have returned a failing result.
\<close>

theorem runAssertion_javascript_throw_null:
  "runAssertion example_env
     \<lparr>type = ''javascript'', value = Some ''(() => { throw null })()'', threshold = None\<rparr>
     example_test ''hi'' []
   = (Inl (Error (''Cannot read properties of null (reading '' @ [CHR 0x27] @ ''message''
             @ [CHR 0x27] @ '')'')),
      [''call return (() => { throw null })()''])"
  by (simp add: example_defs)

section \<open>Raised errors and graded failures\<close>














section \<open>The reason of a result\<close>










section \<open>The assertion parser on its examples\<close>

lemma assertionFromString_examples:
  "assertionFromString ''similar(0.9): foo''
     = \<lparr>type = ''similar'', value = Some ''foo'', threshold = Some (Num (9 / 10))\<rparr>"
  "assertionFromString ''similar: foo''
     = \<lparr>type = ''similar'', value = Some ''foo'', threshold = Some (Num (8 / 10))\<rparr>"
  "assertionFromString ''fn: x.length > 0''
     = \<lparr>type = ''javascript'', value = Some '' x.length > 0'', threshold = None\<rparr>"
  "assertionFromString ''eval: x.length > 0''
     = \<lparr>type = ''javascript'', value = Some '' x.length > 0'', threshold = None\<rparr>"
  "assertionFromString ''grade: be concise''
     = \<lparr>type = ''llm-rubric'', value = Some '' be concise'', threshold = None\<rparr>"
  "assertionFromString ''is-json'' = \<lparr>type = ''is-json'', value = None, threshold = None\<rparr>"
  "assertionFromString ''contains-json''
     = \<lparr>type = ''contains-json'', value = None, threshold = None\<rparr>"
  "assertionFromString ''hello'' = \<lparr>type = ''equals'', value = Some ''hello'', threshold = None\<rparr>"
  by (simp_all add: parser_defs)

text \<open>
  C5. The parser is total and gives the five examples of the specification the assertions
  stated there (the lemma above). But \<open>SIMILAR_REGEX\<close> has no anchor, and \<open>match\<close> finds
  it anywhere in the string: the similar form is not recognised as a prefix only. The
  shorthand of a predicate that tests the output against the regular expression
  \<open>/similar:/\<close> starts with \<open>eval:\<close> and is parsed as a \<open>similar\<close> assertion, whose value is
  the string with the match cut out of its middle.
\<close>

theorem assertionFromString_similar_inside:
  "assertionFromString ''eval: /similar:/.test(output)''
     = \<lparr>type = ''similar'', value = Some ''eval: //.test(output)'',
        threshold = Some (Num (8 / 10))\<rparr>"
  by (simp add: parser_defs)

end
